theory Spec2Isabelle
  imports Complex_Main
begin

section \<open>Values, dictionaries and exceptions\<close>

text \<open>
  The three service classes of the repository (\<^verbatim>\<open>TextEmbeddingService\<close> in
  \<^verbatim>\<open>src/services/text_embedding_service.py\<close>, \<^verbatim>\<open>QdrantEmbeddingService\<close> in
  \<^verbatim>\<open>qdrant_integration.py\<close> and \<^verbatim>\<open>StrictEmbeddingPipeline\<close> in
  \<^verbatim>\<open>strict_embedding_pipeline.py\<close>) are embedded as functions over an explicit world.
  Their methods are prefixed \<open>tes_\<close>, \<open>qes_\<close> and \<open>sep_\<close>; the routes of
  \<^verbatim>\<open>src/api/v1/text_embedding.py\<close> are prefixed \<open>api_\<close>. Logging calls have no
  effect on any result and are left out.
\<close>

datatype pyval =
    PyNone
  | PyBool bool
  | PyInt int
  | PyStr string
  | PyList "pyval list"

text \<open>A Python \<^verbatim>\<open>dict\<close> with string keys.\<close>

type_synonym pydict = "string \<rightharpoonup> pyval"

text \<open>\<^verbatim>\<open>d.setdefault(k, v)\<close>: stores \<open>v\<close> only when \<open>k\<close> is not a key of \<open>d\<close>.\<close>

definition setdefault :: "string \<Rightarrow> pyval \<Rightarrow> pydict \<Rightarrow> pydict" where
  "setdefault k v d = (case d k of None \<Rightarrow> d(k \<mapsto> v) | Some _ \<Rightarrow> d)"

text \<open>
  Exceptions. \<open>ClientError\<close> stands for any exception raised inside one of the two
  external SDKs (Cohere, Qdrant client), carrying \<^verbatim>\<open>str(e)\<close>; \<open>HTTPException\<close> carries
  the status code and the \<^verbatim>\<open>error\<close> and \<^verbatim>\<open>message\<close> entries of its detail.
\<close>

datatype exn =
    ValueError string
  | GenericException string
  | ClientError string
  | IndexError
  | HTTPException nat string string

fun str_exn :: "exn \<Rightarrow> string" where
  "str_exn (ValueError m) = m"
| "str_exn (GenericException m) = m"
| "str_exn (ClientError m) = m"
| "str_exn IndexError = ''list index out of range''"
| "str_exn (HTTPException c e m) = m"

text \<open>Decimal rendering of a length inside an f-string.\<close>

fun digit_char :: "nat \<Rightarrow> char" where
  "digit_char n = char_of (48 + n)"

fun str_nat :: "nat \<Rightarrow> string" where
  "str_nat n = (if n < 10 then [digit_char n] else str_nat (n div 10) @ [digit_char (n mod 10)])"

declare str_nat.simps [simp del]

text \<open>
  \<^verbatim>\<open>str.strip()\<close> removes leading and trailing whitespace. Characters are taken as code
  points below 256; those for which \<^verbatim>\<open>str.isspace()\<close> holds are 9 to 13, 28 to 32,
  133 and 160.
\<close>

definition is_space :: "char \<Rightarrow> bool" where
  "is_space c = (let n = (of_char c :: nat) in
     (9 \<le> n \<and> n \<le> 13) \<or> (28 \<le> n \<and> n \<le> 32) \<or> n = 133 \<or> n = 160)"

definition strip :: "string \<Rightarrow> string" where
  "strip s = rev (dropWhile is_space (rev (dropWhile is_space s)))"

text \<open>The guard \<^verbatim>\<open>not text or not text.strip()\<close>.\<close>

definition blank :: "string \<Rightarrow> bool" where
  "blank s = (s = [] \<or> strip s = [])"

section \<open>The two external services and the world\<close>

type_synonym vector = "real list"

datatype input_type = SearchDocument | SearchQuery

datatype distance = Cosine | Euclid | Dot

text \<open>A point as it is sent to the store, and a hit as the store returns it.\<close>

record point =
  p_id :: string
  p_vector :: vector
  p_payload :: pydict

record hit =
  h_id :: string
  h_score :: real
  h_payload :: "pydict option"

datatype qfilter = QFilter pydict

type_synonym addr = nat

text \<open>
  \<^verbatim>\<open>models.PointStruct(id=..., vector=..., payload=metadata)\<close> as the service builds it:
  the payload is a reference to the metadata dictionary, not a copy of its contents.
\<close>

record point_struct =
  ps_id :: string
  ps_vector :: vector
  ps_payload :: addr

text \<open>
  The service object: the Cohere client, the Qdrant client, the collection name, and the
  two library calls \<^verbatim>\<open>uuid4()\<close> and \<^verbatim>\<open>datetime.now().isoformat()\<close>. Both clients are
  external to the repository, so their behaviour is a parameter: every call either
  returns or raises, as a function of its arguments and of the state \<open>'q\<close> of the store.
  \<open>embed\<close> returns \<^verbatim>\<open>response.embeddings\<close> of
  \<^verbatim>\<open>cohere_client.embed(texts=..., model="embed-english-v3.0", input_type=...)\<close>;
  \<open>get_collections\<close> returns the names of \<^verbatim>\<open>get_collections().collections\<close>.
\<close>

record 'q service =
  collection_name :: string
  embed :: "string list \<Rightarrow> input_type \<Rightarrow> exn + vector list"
  get_collections :: "'q \<Rightarrow> exn + string list"
  create_collection :: "string \<Rightarrow> nat \<Rightarrow> distance \<Rightarrow> 'q \<Rightarrow> exn + 'q"
  upsert :: "string \<Rightarrow> point list \<Rightarrow> 'q \<Rightarrow> exn + 'q"
  search :: "string \<Rightarrow> vector \<Rightarrow> int \<Rightarrow> 'q \<Rightarrow> exn + hit list"
  query_points :: "string \<Rightarrow> vector \<Rightarrow> int \<Rightarrow> qfilter option \<Rightarrow> 'q \<Rightarrow> exn + hit list"
  count :: "string \<Rightarrow> 'q \<Rightarrow> exn + nat"
  uuid4 :: "nat \<Rightarrow> string"
  now_isoformat :: "nat \<Rightarrow> string"

text \<open>Every call that leaves the process is recorded, whether it returns or raises.\<close>

datatype call =
    CEmbed "string list" input_type
  | CGetCollections
  | CCreateCollection string nat distance
  | CUpsert string "point_struct list"
  | CSearch string vector int
  | CQueryPoints string vector int "qfilter option"
  | CCount string

text \<open>
  The world: the state of the store, the calls made so far, the Python heap holding the
  metadata dictionaries (addresses not yet allocated hold the empty dictionary), and the
  counters of generated identifiers and clock readings.
\<close>

record 'q world =
  store :: 'q
  trace :: "call list"
  heap :: "addr \<Rightarrow> pydict"
  next_addr :: addr
  uuid_ctr :: nat
  clock :: nat

type_synonym ('q, 'a) result = "(exn + 'a) \<times> 'q world"

definition log_call :: "call \<Rightarrow> 'q world \<Rightarrow> 'q world" where
  "log_call c w = w\<lparr>trace := trace w @ [c]\<rparr>"

definition call_embed :: "'q service \<Rightarrow> string list \<Rightarrow> input_type \<Rightarrow> 'q world \<Rightarrow> ('q, vector list) result" where
  "call_embed self texts t w = (embed self texts t, log_call (CEmbed texts t) w)"

definition call_get_collections :: "'q service \<Rightarrow> 'q world \<Rightarrow> ('q, string list) result" where
  "call_get_collections self w = (get_collections self (store w), log_call CGetCollections w)"

definition call_create_collection :: "'q service \<Rightarrow> string \<Rightarrow> nat \<Rightarrow> distance \<Rightarrow> 'q world \<Rightarrow> ('q, unit) result" where
  "call_create_collection self name vsize d w =
     (let w1 = log_call (CCreateCollection name vsize d) w in
      case create_collection self name vsize d (store w) of
        Inl e \<Rightarrow> (Inl e, w1)
      | Inr q \<Rightarrow> (Inr (), w1\<lparr>store := q\<rparr>))"

text \<open>The payload of a point is read from the heap when the point is sent.\<close>

definition serialize :: "(addr \<Rightarrow> pydict) \<Rightarrow> point_struct \<Rightarrow> point" where
  "serialize h ps = \<lparr>p_id = ps_id ps, p_vector = ps_vector ps, p_payload = h (ps_payload ps)\<rparr>"

definition call_upsert :: "'q service \<Rightarrow> string \<Rightarrow> point_struct list \<Rightarrow> 'q world \<Rightarrow> ('q, unit) result" where
  "call_upsert self name points w =
     (let w1 = log_call (CUpsert name points) w in
      case upsert self name (map (serialize (heap w)) points) (store w) of
        Inl e \<Rightarrow> (Inl e, w1)
      | Inr q \<Rightarrow> (Inr (), w1\<lparr>store := q\<rparr>))"

definition call_search :: "'q service \<Rightarrow> string \<Rightarrow> vector \<Rightarrow> int \<Rightarrow> 'q world \<Rightarrow> ('q, hit list) result" where
  "call_search self name v k w = (search self name v k (store w), log_call (CSearch name v k) w)"

definition call_query_points :: "'q service \<Rightarrow> string \<Rightarrow> vector \<Rightarrow> int \<Rightarrow> qfilter option \<Rightarrow> 'q world \<Rightarrow> ('q, hit list) result" where
  "call_query_points self name v k f w =
     (query_points self name v k f (store w), log_call (CQueryPoints name v k f) w)"

definition call_count :: "'q service \<Rightarrow> string \<Rightarrow> 'q world \<Rightarrow> ('q, nat) result" where
  "call_count self name w = (count self name (store w), log_call (CCount name) w)"

text \<open>\<^verbatim>\<open>str(uuid4())\<close> and \<^verbatim>\<open>datetime.now().isoformat()\<close>.\<close>

definition new_uuid :: "'q service \<Rightarrow> 'q world \<Rightarrow> string \<times> 'q world" where
  "new_uuid self w = (uuid4 self (uuid_ctr w), w\<lparr>uuid_ctr := Suc (uuid_ctr w)\<rparr>)"

definition read_clock :: "'q service \<Rightarrow> 'q world \<Rightarrow> string \<times> 'q world" where
  "read_clock self w = (now_isoformat self (clock w), w\<lparr>clock := Suc (clock w)\<rparr>)"

section \<open>Collection manager\<close>

text \<open>
  The body shared by the three \<^verbatim>\<open>_ensure_collection_exists\<close> methods, inside their
  \<^verbatim>\<open>try\<close>: list the collections, and create the named one with cosine distance when no
  listed collection has its name.
\<close>

definition ensure_body :: "'q service \<Rightarrow> nat \<Rightarrow> 'q world \<Rightarrow> ('q, unit) result" where
  "ensure_body self vector_size w =
     (case call_get_collections self w of
        (Inl e, w1) \<Rightarrow> (Inl e, w1)
      | (Inr names, w1) \<Rightarrow>
          (let collection_exists = (collection_name self \<in> set names) in
           if \<not> collection_exists
           then call_create_collection self (collection_name self) vector_size Cosine w1
           else (Inr (), w1)))"

text \<open>\<^verbatim>\<open>TextEmbeddingService._ensure_collection_exists\<close>: any exception is logged and turned
  into the return value \<^verbatim>\<open>False\<close>.\<close>

definition tes_ensure_collection_exists :: "'q service \<Rightarrow> nat \<Rightarrow> 'q world \<Rightarrow> ('q, bool) result" where
  "tes_ensure_collection_exists self vector_size w =
     (case ensure_body self vector_size w of
        (Inl e, w1) \<Rightarrow> (Inr False, w1)
      | (Inr _, w1) \<Rightarrow> (Inr True, w1))"

text \<open>\<^verbatim>\<open>QdrantEmbeddingService._ensure_collection_exists\<close>: any exception is logged and
  raised again.\<close>

definition qes_ensure_collection_exists :: "'q service \<Rightarrow> nat \<Rightarrow> 'q world \<Rightarrow> ('q, bool) result" where
  "qes_ensure_collection_exists self vector_size w =
     (case ensure_body self vector_size w of
        (Inl e, w1) \<Rightarrow> (Inl e, w1)
      | (Inr _, w1) \<Rightarrow> (Inr True, w1))"

text \<open>\<^verbatim>\<open>StrictEmbeddingPipeline._ensure_collection_exists\<close>: the size is the constant 1024,
  nothing is returned, any exception is logged and raised again.\<close>

definition sep_ensure_collection_exists :: "'q service \<Rightarrow> 'q world \<Rightarrow> ('q, unit) result" where
  "sep_ensure_collection_exists self w =
     (case ensure_body self 1024 w of
        (Inl e, w1) \<Rightarrow> (Inl e, w1)
      | (Inr _, w1) \<Rightarrow> (Inr (), w1))"

text \<open>
  The constructors of \<^verbatim>\<open>QdrantEmbeddingService\<close> and \<^verbatim>\<open>StrictEmbeddingPipeline\<close> fix the
  collection name and check the collection on startup; an exception raised there leaves
  the caller without a service object. (The creation of the two clients from the
  settings happens before and is not modelled.)
\<close>

definition qes_init :: "'q service \<Rightarrow> 'q world \<Rightarrow> ('q, 'q service) result" where
  "qes_init clients w =
     (let self = clients\<lparr>collection_name := ''text_embeddings''\<rparr> in
      case qes_ensure_collection_exists self 1024 w of
        (Inl e, w1) \<Rightarrow> (Inl e, w1)
      | (Inr _, w1) \<Rightarrow> (Inr self, w1))"

definition sep_init :: "'q service \<Rightarrow> 'q world \<Rightarrow> ('q, 'q service) result" where
  "sep_init clients w =
     (let self = clients\<lparr>collection_name := ''text_embeddings''\<rparr> in
      case sep_ensure_collection_exists self w of
        (Inl e, w1) \<Rightarrow> (Inl e, w1)
      | (Inr _, w1) \<Rightarrow> (Inr self, w1))"

section \<open>Ingestion\<close>

text \<open>\<^verbatim>\<open>TextEmbeddingService.convert_text_to_embeddings\<close>.\<close>

definition tes_convert_text_to_embeddings :: "'q service \<Rightarrow> string list \<Rightarrow> 'q world \<Rightarrow> ('q, vector list) result" where
  "tes_convert_text_to_embeddings self texts w =
     (if texts = [] then (Inr [], w)
      else call_embed self texts SearchDocument w)"

text \<open>\<^verbatim>\<open>[str(uuid4()) for _ in range(n)]\<close>.\<close>

fun new_uuids :: "'q service \<Rightarrow> nat \<Rightarrow> 'q world \<Rightarrow> string list \<times> 'q world" where
  "new_uuids self 0 w = ([], w)"
| "new_uuids self (Suc n) w =
     (case new_uuid self w of (u, w1) \<Rightarrow>
      case new_uuids self n w1 of (us, w2) \<Rightarrow> (u # us, w2))"

text \<open>A dictionary display allocates a new object; \<^verbatim>\<open>[{} for _ in range(n)]\<close>
  allocates \<open>n\<close> empty ones.\<close>

definition new_dict :: "pydict \<Rightarrow> 'q world \<Rightarrow> addr \<times> 'q world" where
  "new_dict d w =
     (next_addr w, w\<lparr>heap := (heap w)(next_addr w := d), next_addr := Suc (next_addr w)\<rparr>)"

fun new_dicts :: "nat \<Rightarrow> 'q world \<Rightarrow> addr list \<times> 'q world" where
  "new_dicts 0 w = ([], w)"
| "new_dicts (Suc n) w =
     (case new_dict Map.empty w of (a, w1) \<Rightarrow>
      case new_dicts n w1 of (as, w2) \<Rightarrow> (a # as, w2))"

text \<open>\<^verbatim>\<open>meta.setdefault(k, v)\<close> on the dictionary object at address \<open>meta\<close>.\<close>

definition heap_setdefault :: "addr \<Rightarrow> string \<Rightarrow> pyval \<Rightarrow> 'q world \<Rightarrow> 'q world" where
  "heap_setdefault meta k v w = w\<lparr>heap := (heap w)(meta := setdefault k v (heap w meta))\<rparr>"

text \<open>
  The loop \<^verbatim>\<open>for i, meta in enumerate(metadata_list)\<close> of both batched saves, started at
  index \<open>i\<close>. The clock is read before each \<^verbatim>\<open>setdefault("created_at", ...)\<close>, whether or
  not the key is present. Indexing \<^verbatim>\<open>texts[i]\<close> or \<^verbatim>\<open>ids[i]\<close> out of range raises.
\<close>

fun add_default_metadata :: "'q service \<Rightarrow> string list \<Rightarrow> string list \<Rightarrow> nat \<Rightarrow> addr list \<Rightarrow> 'q world \<Rightarrow> ('q, unit) result" where
  "add_default_metadata self texts ids i [] w = (Inr (), w)"
| "add_default_metadata self texts ids i (meta # rest) w =
     (if length texts \<le> i then (Inl IndexError, w)
      else
        let w1 = heap_setdefault meta ''text'' (PyStr (texts ! i)) w in
        case read_clock self w1 of (ts, w2) \<Rightarrow>
        let w3 = heap_setdefault meta ''created_at'' (PyStr ts) w2 in
        if length ids \<le> i then (Inl IndexError, w3)
        else add_default_metadata self texts ids (Suc i) rest
               (heap_setdefault meta ''id'' (PyStr (ids ! i)) w3))"

text \<open>The loop over \<^verbatim>\<open>zip(ids, embeddings, metadata_list)\<close>, which stops with the shortest
  of the three lists.\<close>

definition build_points :: "string list \<Rightarrow> vector list \<Rightarrow> addr list \<Rightarrow> point_struct list" where
  "build_points ids embeddings metadata_list =
     map (\<lambda>(text_id, embedding, metadata).
            \<lparr>ps_id = text_id, ps_vector = embedding, ps_payload = metadata\<rparr>)
         (zip ids (zip embeddings metadata_list))"

text \<open>The last three steps of both batched saves: add the default metadata fields, prepare
  the points, upsert them and return the ids.\<close>

definition save_points :: "'q service \<Rightarrow> string list \<Rightarrow> string list \<Rightarrow> vector list \<Rightarrow> addr list \<Rightarrow> 'q world \<Rightarrow> ('q, string list) result" where
  "save_points self texts ids embeddings metadata_list w =
     (case add_default_metadata self texts ids 0 metadata_list w of
        (Inl e, w1) \<Rightarrow> (Inl e, w1)
      | (Inr _, w1) \<Rightarrow>
          (case call_upsert self (collection_name self) (build_points ids embeddings metadata_list) w1 of
             (Inl e, w2) \<Rightarrow> (Inl e, w2)
           | (Inr _, w2) \<Rightarrow> (Inr ids, w2)))"

text \<open>"Generate IDs if not provided" of \<^verbatim>\<open>TextEmbeddingService.save_embeddings_to_qdrant\<close>.\<close>

definition tes_prepare_ids :: "'q service \<Rightarrow> string list \<Rightarrow> string list option \<Rightarrow> 'q world \<Rightarrow> ('q, string list) result" where
  "tes_prepare_ids self texts ids w =
     (case ids of
        None \<Rightarrow> (case new_uuids self (length texts) w of (us, w1) \<Rightarrow> (Inr us, w1))
      | Some l \<Rightarrow>
          if length l \<noteq> length texts
          then (Inl (ValueError ''Number of IDs must match number of texts''), w)
          else (Inr l, w))"

text \<open>"Prepare metadata if not provided" of the same method.\<close>

definition tes_prepare_metadata :: "string list \<Rightarrow> addr list option \<Rightarrow> 'q world \<Rightarrow> ('q, addr list) result" where
  "tes_prepare_metadata texts metadata_list w =
     (case metadata_list of
        None \<Rightarrow> (case new_dicts (length texts) w of (ms, w1) \<Rightarrow> (Inr ms, w1))
      | Some l \<Rightarrow>
          if length l \<noteq> length texts
          then (Inl (ValueError ''Number of metadata entries must match number of texts''), w)
          else (Inr l, w))"

text \<open>\<^verbatim>\<open>TextEmbeddingService.save_embeddings_to_qdrant(texts, metadata_list, ids)\<close>. The
  metadata dictionaries are passed by reference.\<close>

definition tes_save_embeddings_to_qdrant :: "'q service \<Rightarrow> string list \<Rightarrow> addr list option \<Rightarrow> string list option \<Rightarrow> 'q world \<Rightarrow> ('q, string list) result" where
  "tes_save_embeddings_to_qdrant self texts metadata_list ids w =
     (if texts = [] then (Inr [], w)
      else
        case tes_convert_text_to_embeddings self texts w of
          (Inl e, w1) \<Rightarrow> (Inl e, w1)
        | (Inr embeddings, w1) \<Rightarrow>
        case tes_ensure_collection_exists self 1024 w1 of
          (Inl e, w2) \<Rightarrow> (Inl e, w2)
        | (Inr collection_ok, w2) \<Rightarrow>
        if \<not> collection_ok
        then (Inl (GenericException ''Failed to ensure Qdrant collection exists''), w2)
        else
        case tes_prepare_ids self texts ids w2 of
          (Inl e, w3) \<Rightarrow> (Inl e, w3)
        | (Inr ids', w3) \<Rightarrow>
        case tes_prepare_metadata texts metadata_list w3 of
          (Inl e, w4) \<Rightarrow> (Inl e, w4)
        | (Inr metadata_list', w4) \<Rightarrow>
        save_points self texts ids' embeddings metadata_list' w4)"

text \<open>"Prepare metadata if not provided" of \<^verbatim>\<open>QdrantEmbeddingService.save_embeddings\<close>,
  whose message gives the two lengths.\<close>

definition qes_prepare_metadata :: "string list \<Rightarrow> addr list option \<Rightarrow> 'q world \<Rightarrow> ('q, addr list) result" where
  "qes_prepare_metadata texts metadata_list w =
     (case metadata_list of
        None \<Rightarrow> (case new_dicts (length texts) w of (ms, w1) \<Rightarrow> (Inr ms, w1))
      | Some l \<Rightarrow>
          if length l \<noteq> length texts
          then (Inl (ValueError (''Number of metadata entries ('' @ str_nat (length l)
                   @ '') must match number of texts ('' @ str_nat (length texts) @ '')'')), w)
          else (Inr l, w))"

text \<open>\<^verbatim>\<open>QdrantEmbeddingService.save_embeddings(texts, metadata_list)\<close>; its
  \<^verbatim>\<open>except\<close> clause logs and raises again.\<close>

definition qes_save_embeddings :: "'q service \<Rightarrow> string list \<Rightarrow> addr list option \<Rightarrow> 'q world \<Rightarrow> ('q, string list) result" where
  "qes_save_embeddings self texts metadata_list w =
     (if texts = [] then (Inr [], w)
      else
        case call_embed self texts SearchDocument w of
          (Inl e, w1) \<Rightarrow> (Inl e, w1)
        | (Inr embeddings, w1) \<Rightarrow>
        case new_uuids self (length texts) w1 of (ids, w2) \<Rightarrow>
        case qes_prepare_metadata texts metadata_list w2 of
          (Inl e, w3) \<Rightarrow> (Inl e, w3)
        | (Inr metadata_list', w3) \<Rightarrow>
        save_points self texts ids embeddings metadata_list' w3)"

text \<open>\<^verbatim>\<open>response.embeddings[0]\<close>.\<close>

definition first_embedding :: "vector list \<Rightarrow> exn + vector" where
  "first_embedding embeddings = (case embeddings of [] \<Rightarrow> Inl IndexError | v # _ \<Rightarrow> Inr v)"

text \<open>
  \<^verbatim>\<open>StrictEmbeddingPipeline.save_embedding(text, metadata)\<close>. The metadata dictionary is
  only read, so it is passed as its contents; the payload
  \<^verbatim>\<open>{"text": text, "created_at": ..., **metadata}\<close> is a new dictionary in which the
  entries of \<open>metadata\<close> are written last.
\<close>

definition sep_save_embedding :: "'q service \<Rightarrow> string \<Rightarrow> pydict \<Rightarrow> 'q world \<Rightarrow> ('q, string) result" where
  "sep_save_embedding self text metadata w =
     (if blank text then (Inl (ValueError ''Text cannot be empty''), w)
      else
        case call_embed self [text] SearchDocument w of
          (Inl e, w1) \<Rightarrow> (Inl e, w1)
        | (Inr embeddings, w1) \<Rightarrow>
        case first_embedding embeddings of
          Inl e \<Rightarrow> (Inl e, w1)
        | Inr embedding \<Rightarrow>
        if length embedding \<noteq> 1024
        then (Inl (ValueError (''Expected embedding vector of size 1024, got ''
                     @ str_nat (length embedding))), w1)
        else
        case new_uuid self w1 of (vector_id, w2) \<Rightarrow>
        case read_clock self w2 of (ts, w3) \<Rightarrow>
        case new_dict ([''text'' \<mapsto> PyStr text, ''created_at'' \<mapsto> PyStr ts] ++ metadata) w3 of
          (payload, w4) \<Rightarrow>
        let point = \<lparr>ps_id = vector_id, ps_vector = embedding, ps_payload = payload\<rparr> in
        case call_upsert self (collection_name self) [point] w4 of
          (Inl e, w5) \<Rightarrow> (Inl e, w5)
        | (Inr _, w5) \<Rightarrow> (Inr vector_id, w5))"

section \<open>Retrieval\<close>

text \<open>\<^verbatim>\<open>TextEmbeddingService.convert_single_text_to_embedding\<close>.\<close>

definition tes_convert_single_text_to_embedding :: "'q service \<Rightarrow> string \<Rightarrow> 'q world \<Rightarrow> ('q, vector) result" where
  "tes_convert_single_text_to_embedding self text w =
     (if blank text then (Inl (ValueError ''Text cannot be empty''), w)
      else
        case call_embed self [text] SearchQuery w of
          (Inl e, w1) \<Rightarrow> (Inl e, w1)
        | (Inr embeddings, w1) \<Rightarrow> (first_embedding embeddings, w1))"

text \<open>The dictionary with the keys \<^verbatim>\<open>id\<close>, \<^verbatim>\<open>score\<close>, \<^verbatim>\<open>payload\<close> and \<^verbatim>\<open>text\<close> that each
  retrieval function returns per hit.\<close>

record query_result =
  r_id :: string
  r_score :: real
  r_payload :: pydict
  r_text :: pyval

text \<open>
  The body of the result loop, the same in the three classes. \<^verbatim>\<open>point.payload or {}\<close>
  and \<^verbatim>\<open>point.payload.get("text", "") if point.payload else ""\<close> treat a payload that
  is \<^verbatim>\<open>None\<close> like one that is empty. Identifiers are strings and scores are floats already,
  so \<^verbatim>\<open>str\<close> and \<^verbatim>\<open>float\<close> return them as they are.
\<close>

definition result_of_point :: "hit \<Rightarrow> query_result" where
  "result_of_point point =
     \<lparr>r_id = h_id point,
      r_score = h_score point,
      r_payload = (case h_payload point of
                     None \<Rightarrow> Map.empty
                   | Some p \<Rightarrow> if p = Map.empty then Map.empty else p),
      r_text = (case h_payload point of
                  None \<Rightarrow> PyStr []
                | Some p \<Rightarrow>
                    if p = Map.empty then PyStr []
                    else (case p ''text'' of None \<Rightarrow> PyStr [] | Some v \<Rightarrow> v))\<rparr>"

text \<open>\<^verbatim>\<open>TextEmbeddingService.retrieve_similar_embeddings(query_text, top_k, filters)\<close>.\<close>

definition tes_retrieve_similar_embeddings :: "'q service \<Rightarrow> string \<Rightarrow> int \<Rightarrow> qfilter option \<Rightarrow> 'q world \<Rightarrow> ('q, query_result list) result" where
  "tes_retrieve_similar_embeddings self query_text top_k filters w =
     (if blank query_text then (Inl (ValueError ''Query text cannot be empty''), w)
      else
        case tes_convert_single_text_to_embedding self query_text w of
          (Inl e, w1) \<Rightarrow> (Inl e, w1)
        | (Inr query_embedding, w1) \<Rightarrow>
        case call_query_points self (collection_name self) query_embedding top_k filters w1 of
          (Inl e, w2) \<Rightarrow> (Inl e, w2)
        | (Inr points, w2) \<Rightarrow> (Inr (map result_of_point points), w2))"

text \<open>\<^verbatim>\<open>QdrantEmbeddingService.retrieve_embeddings(query_text, top_k)\<close>.\<close>

definition qes_retrieve_embeddings :: "'q service \<Rightarrow> string \<Rightarrow> int \<Rightarrow> 'q world \<Rightarrow> ('q, query_result list) result" where
  "qes_retrieve_embeddings self query_text top_k w =
     (if blank query_text then (Inl (ValueError ''Query text cannot be empty''), w)
      else
        case call_embed self [query_text] SearchQuery w of
          (Inl e, w1) \<Rightarrow> (Inl e, w1)
        | (Inr embeddings, w1) \<Rightarrow>
        case first_embedding embeddings of
          Inl e \<Rightarrow> (Inl e, w1)
        | Inr query_embedding \<Rightarrow>
        case call_search self (collection_name self) query_embedding top_k w1 of
          (Inl e, w2) \<Rightarrow> (Inl e, w2)
        | (Inr search_results, w2) \<Rightarrow> (Inr (map result_of_point search_results), w2))"

text \<open>\<^verbatim>\<open>StrictEmbeddingPipeline.retrieve_embedding(query, top_k)\<close>.\<close>

definition sep_retrieve_embedding :: "'q service \<Rightarrow> string \<Rightarrow> int \<Rightarrow> 'q world \<Rightarrow> ('q, query_result list) result" where
  "sep_retrieve_embedding self query top_k w =
     (if blank query then (Inl (ValueError ''Query cannot be empty''), w)
      else
        case call_embed self [query] SearchQuery w of
          (Inl e, w1) \<Rightarrow> (Inl e, w1)
        | (Inr embeddings, w1) \<Rightarrow>
        case first_embedding embeddings of
          Inl e \<Rightarrow> (Inl e, w1)
        | Inr query_embedding \<Rightarrow>
        if length query_embedding \<noteq> 1024
        then (Inl (ValueError (''Expected query embedding vector of size 1024, got ''
                     @ str_nat (length query_embedding))), w1)
        else
        case call_search self (collection_name self) query_embedding top_k w1 of
          (Inl e, w2) \<Rightarrow> (Inl e, w2)
        | (Inr search_results, w2) \<Rightarrow> (Inr (map result_of_point search_results), w2))"

section \<open>Health check\<close>

text \<open>The \<^verbatim>\<open>try\<close> block of \<^verbatim>\<open>QdrantEmbeddingService.health_check\<close>.\<close>

definition health_check_try :: "'q service \<Rightarrow> 'q world \<Rightarrow> ('q, pydict) result" where
  "health_check_try self w =
     (case call_get_collections self w of
        (Inl e, w1) \<Rightarrow> (Inl e, w1)
      | (Inr names, w1) \<Rightarrow>
          (let collection_exists = (collection_name self \<in> set names) in
           if \<not> collection_exists
           then (Inr [''status'' \<mapsto> PyStr ''unhealthy'',
                      ''connection'' \<mapsto> PyStr ''ok'',
                      ''collection'' \<mapsto> PyStr ''missing'',
                      ''message'' \<mapsto> PyStr (''Collection '' @ collection_name self @ '' does not exist'')], w1)
           else
             case call_count self (collection_name self) w1 of
               (Inl e, w2) \<Rightarrow> (Inl e, w2)
             | (Inr n, w2) \<Rightarrow>
                 (Inr [''status'' \<mapsto> PyStr ''healthy'',
                       ''connection'' \<mapsto> PyStr ''ok'',
                       ''collection'' \<mapsto> PyStr ''available'',
                       ''vector_count'' \<mapsto> PyInt (int n)], w2)))"

text \<open>\<^verbatim>\<open>health_check\<close> with its \<^verbatim>\<open>except Exception\<close> clause, which returns a report.\<close>

definition health_check :: "'q service \<Rightarrow> 'q world \<Rightarrow> ('q, pydict) result" where
  "health_check self w =
     (case health_check_try self w of
        (Inl e, w1) \<Rightarrow>
          (Inr [''status'' \<mapsto> PyStr ''unhealthy'',
                ''connection'' \<mapsto> PyStr ''failed'',
                ''error'' \<mapsto> PyStr (str_exn e)], w1)
      | (Inr report, w1) \<Rightarrow> (Inr report, w1))"

section \<open>HTTP routes\<close>

text \<open>
  The two \<^verbatim>\<open>except\<close> clauses of every route: an \<^verbatim>\<open>HTTPException\<close> is raised again, any
  other exception becomes a 500.
\<close>

definition api_except :: "exn \<Rightarrow> exn" where
  "api_except e =
     (case e of
        HTTPException c k m \<Rightarrow> HTTPException c k m
      | _ \<Rightarrow> HTTPException 500 ''INTERNAL_ERROR'' (''Internal server error: '' @ str_exn e))"

text \<open>\<^verbatim>\<open>request.top_k or 5\<close>.\<close>

definition top_k_or_5 :: "int option \<Rightarrow> int" where
  "top_k_or_5 top_k = (case top_k of None \<Rightarrow> 5 | Some k \<Rightarrow> if k = 0 then 5 else k)"

text \<open>
  \<^verbatim>\<open>search_similar\<close> (POST /search) on a \<^verbatim>\<open>SimilaritySearchRequest\<close> with fields
  \<open>query_text\<close> and \<open>top_k\<close>; the field \<open>filters\<close> of the request is not passed on. The
  value returned is the list of results from which the response is built; the
  construction of the response objects is not modelled.
\<close>

definition api_search_similar :: "'q service \<Rightarrow> string \<Rightarrow> int option \<Rightarrow> 'q world \<Rightarrow> ('q, query_result list) result" where
  "api_search_similar service query_text top_k w =
     (if blank query_text
      then (Inl (HTTPException 400 ''INVALID_INPUT'' ''Query text cannot be empty''), w)
      else if (case top_k of None \<Rightarrow> False | Some k \<Rightarrow> k < 1 \<or> k > 100)
      then (Inl (HTTPException 400 ''INVALID_TOP_K'' ''top_k must be between 1 and 100''), w)
      else
        case tes_retrieve_similar_embeddings service query_text (top_k_or_5 top_k) None w of
          (Inl e, w1) \<Rightarrow> (Inl (api_except e), w1)
        | (Inr results, w1) \<Rightarrow> (Inr results, w1))"

text \<open>\<^verbatim>\<open>save_embeddings\<close> (POST /save) on a \<^verbatim>\<open>TextEmbeddingRequest\<close>; the value returned
  is the list of ids from which the response is built.\<close>

definition api_save_embeddings :: "'q service \<Rightarrow> string list \<Rightarrow> addr list option \<Rightarrow> 'q world \<Rightarrow> ('q, string list) result" where
  "api_save_embeddings service texts metadata_list w =
     (if texts = []
      then (Inl (HTTPException 400 ''INVALID_INPUT'' ''Texts list cannot be empty''), w)
      else if length texts > 100
      then (Inl (HTTPException 400 ''INVALID_INPUT'' ''Too many texts provided (max 100)''), w)
      else
        case tes_save_embeddings_to_qdrant service texts metadata_list None w of
          (Inl e, w1) \<Rightarrow> (Inl (api_except e), w1)
        | (Inr saved_ids, w1) \<Rightarrow> (Inr saved_ids, w1))"

section \<open>An in-memory instance of the external services\<close>

text \<open>
  To run the model on concrete inputs the two clients are instantiated with a small
  in-memory store: a list of named collections, each with its vector size, its distance
  and its points. \<open>mem_upsert\<close> replaces points by identifier; \<open>mem_search\<close> returns the
  first \<open>limit\<close> points of the collection, scored by the dot product with the query.
  Both refuse a vector whose length is not the size of the collection.
  The embedding of a text is the vector of 1024 copies of its length.
\<close>

record collection =
  c_size :: nat
  c_distance :: distance
  c_points :: "point list"

type_synonym mem_store = "(string \<times> collection) list"

definition mem_embed :: "string list \<Rightarrow> input_type \<Rightarrow> exn + vector list" where
  "mem_embed texts t = Inr (map (\<lambda>s. replicate 1024 (real (length s))) texts)"

definition mem_get_collections :: "mem_store \<Rightarrow> exn + string list" where
  "mem_get_collections q = Inr (map fst q)"

definition mem_create_collection :: "string \<Rightarrow> nat \<Rightarrow> distance \<Rightarrow> mem_store \<Rightarrow> exn + mem_store" where
  "mem_create_collection name vsize d q =
     (if name \<in> set (map fst q) then Inl (ClientError ''Collection already exists'')
      else Inr (q @ [(name, \<lparr>c_size = vsize, c_distance = d, c_points = []\<rparr>)]))"

definition mem_upsert :: "string \<Rightarrow> point list \<Rightarrow> mem_store \<Rightarrow> exn + mem_store" where
  "mem_upsert name pts q =
     (case map_of q name of
        None \<Rightarrow> Inl (ClientError ''Collection not found'')
      | Some c \<Rightarrow>
          if list_ex (\<lambda>p. length (p_vector p) \<noteq> c_size c) pts
          then Inl (ClientError ''Vector dimension error'')
          else Inr (map (\<lambda>(n, c'). if n = name
                      then (n, c'\<lparr>c_points := filter (\<lambda>p. p_id p \<notin> set (map p_id pts)) (c_points c') @ pts\<rparr>)
                      else (n, c')) q))"

definition hit_of_point :: "vector \<Rightarrow> point \<Rightarrow> hit" where
  "hit_of_point v p =
     \<lparr>h_id = p_id p, h_score = sum_list (map2 (*) v (p_vector p)), h_payload = Some (p_payload p)\<rparr>"

definition mem_search :: "string \<Rightarrow> vector \<Rightarrow> int \<Rightarrow> mem_store \<Rightarrow> exn + hit list" where
  "mem_search name v limit q =
     (case map_of q name of
        None \<Rightarrow> Inl (ClientError ''Collection not found'')
      | Some c \<Rightarrow>
          if length v \<noteq> c_size c then Inl (ClientError ''Vector dimension error'')
          else Inr (take (nat limit) (map (hit_of_point v) (c_points c))))"

definition mem_count :: "string \<Rightarrow> mem_store \<Rightarrow> exn + nat" where
  "mem_count name q =
     (case map_of q name of
        None \<Rightarrow> Inl (ClientError ''Collection not found'')
      | Some c \<Rightarrow> Inr (length (c_points c)))"

definition mem_service :: "mem_store service" where
  "mem_service =
     \<lparr>collection_name = ''text_embeddings'',
      embed = mem_embed,
      get_collections = mem_get_collections,
      create_collection = mem_create_collection,
      upsert = mem_upsert,
      search = mem_search,
      query_points = (\<lambda>name v limit f. mem_search name v limit),
      count = mem_count,
      uuid4 = (\<lambda>n. ''id-'' @ str_nat n),
      now_isoformat = (\<lambda>n. ''t-'' @ str_nat n)\<rparr>"

text \<open>The same service with an unreachable store, and with a provider that returns
  vectors of three components.\<close>

definition down_service :: "mem_store service" where
  "down_service = mem_service\<lparr>get_collections := (\<lambda>q. Inl (ClientError ''connection refused''))\<rparr>"

definition short_service :: "mem_store service" where
  "short_service = mem_service\<lparr>embed := (\<lambda>texts t. Inr (map (\<lambda>s. [1, 2, 3]) texts))\<rparr>"

text \<open>A world with an empty store and an empty heap, and one in which the caller holds a
  metadata dictionary \<^verbatim>\<open>{"category": "AI"}\<close> at address 0.\<close>

definition world0 :: "mem_store world" where
  "world0 = \<lparr>store = [], trace = [], heap = (\<lambda>a. Map.empty), next_addr = 0, uuid_ctr = 0, clock = 0\<rparr>"


text \<open>The store in which the collection exists and is empty.\<close>

definition ready_store :: mem_store where
  "ready_store = [(''text_embeddings'', \<lparr>c_size = 1024, c_distance = Cosine, c_points = []\<rparr>)]"

text \<open>The store that holds one point, saved from the text \<^verbatim>\<open>foo\<close> with the metadata
  \<^verbatim>\<open>{"category": "AI"}\<close>.\<close>

definition foo_point :: point where
  "foo_point =
     \<lparr>p_id = ''id-0'', p_vector = replicate 1024 3,
      p_payload = [''category'' \<mapsto> PyStr ''AI'', ''text'' \<mapsto> PyStr ''foo'']\<rparr>"

definition foo_store :: mem_store where
  "foo_store =
     [(''text_embeddings'', \<lparr>c_size = 1024, c_distance = Cosine, c_points = [foo_point]\<rparr>)]"

section \<open>Notions used to state the properties\<close>

text \<open>Two calls of an operation in sequence, the second on the world the first one left.\<close>

definition twice :: "('q world \<Rightarrow> ('q, 'a) result) \<Rightarrow> 'q world \<Rightarrow> (exn + 'a) \<times> (exn + 'a) \<times> 'q world" where
  "twice f w = (case f w of (r1, w1) \<Rightarrow> case f w1 of (r2, w2) \<Rightarrow> (r1, r2, w2))"

text \<open>
  The existence check or the creation fails with \<open>e\<close> on store \<open>q\<close>: either listing the
  collections raises \<open>e\<close>, or the collection is not listed and creating it raises \<open>e\<close>.
  \<open>check_calls\<close> are the store calls the check makes on \<open>q\<close>.
\<close>

definition check_fails :: "'q service \<Rightarrow> nat \<Rightarrow> 'q \<Rightarrow> exn \<Rightarrow> bool" where
  "check_fails self vsize q e =
     (case get_collections self q of
        Inl e' \<Rightarrow> e' = e
      | Inr names \<Rightarrow>
          collection_name self \<notin> set names \<and>
          create_collection self (collection_name self) vsize Cosine q = Inl e)"

definition check_calls :: "'q service \<Rightarrow> nat \<Rightarrow> 'q \<Rightarrow> call list" where
  "check_calls self vsize q =
     (case get_collections self q of
        Inl e \<Rightarrow> [CGetCollections]
      | Inr names \<Rightarrow>
          if collection_name self \<in> set names then [CGetCollections]
          else [CGetCollections, CCreateCollection (collection_name self) vsize Cosine])"


text \<open>A call that reads from or writes to the collection.\<close>

fun reads_or_writes :: "call \<Rightarrow> bool" where
  "reads_or_writes (CUpsert name pts) = True"
| "reads_or_writes (CSearch name v k) = True"
| "reads_or_writes (CQueryPoints name v k f) = True"
| "reads_or_writes (CCount name) = True"
| "reads_or_writes c = False"

text \<open>The calls an operation added to the trace, given the world before and after it.\<close>

definition new_calls :: "'q world \<Rightarrow> 'q world \<Rightarrow> call list" where
  "new_calls w w' = drop (length (trace w)) (trace w')"

text \<open>The identifiers that \<open>n\<close> calls of \<^verbatim>\<open>uuid4()\<close> return from world \<open>w\<close> on.\<close>

definition uuids :: "'q service \<Rightarrow> 'q world \<Rightarrow> nat \<Rightarrow> string list" where
  "uuids self w n = map (\<lambda>i. uuid4 self (uuid_ctr w + i)) [0..<n]"

text \<open>The position of the first occurrence of \<open>a\<close> in a list that holds it.\<close>

fun first_index :: "'a list \<Rightarrow> 'a \<Rightarrow> nat" where
  "first_index [] a = 0"
| "first_index (x # xs) a = (if x = a then 0 else Suc (first_index xs a))"

text \<open>The three \<^verbatim>\<open>setdefault\<close> calls of one round of the metadata loop, on the contents
  of one dictionary.\<close>

definition with_defaults :: "string \<Rightarrow> string \<Rightarrow> string \<Rightarrow> pydict \<Rightarrow> pydict" where
  "with_defaults t ts i d =
     setdefault ''id'' (PyStr i) (setdefault ''created_at'' (PyStr ts) (setdefault ''text'' (PyStr t) d))"

text \<open>
  The heap that the metadata loop leaves when it starts at index \<open>i\<close> and clock \<open>c\<close> on
  heap \<open>h\<close>: a dictionary of the list has received the defaults of the first round that
  met it (a dictionary object may stand at several positions of the list), every other
  object is as before.
\<close>

definition heap_after_defaults ::
  "'q service \<Rightarrow> string list \<Rightarrow> string list \<Rightarrow> nat \<Rightarrow> nat \<Rightarrow> addr list \<Rightarrow> (addr \<Rightarrow> pydict) \<Rightarrow> (addr \<Rightarrow> pydict)" where
  "heap_after_defaults self texts ids i c metadata_list h =
     (\<lambda>a. if a \<in> set metadata_list
          then with_defaults (texts ! (i + first_index metadata_list a))
                 (now_isoformat self (c + first_index metadata_list a))
                 (ids ! (i + first_index metadata_list a)) (h a)
          else h a)"

text \<open>The points that a batched save called without ids hands to the store, as the store
  receives them.\<close>

definition batch_points :: "'q service \<Rightarrow> string list \<Rightarrow> vector list \<Rightarrow> addr list \<Rightarrow> 'q world \<Rightarrow> point list" where
  "batch_points self texts embs metadata_list w =
     map (serialize (heap_after_defaults self texts (uuids self w (length texts)) 0 (clock w)
                       metadata_list (heap w)))
         (build_points (uuids self w (length texts)) embs metadata_list)"


section \<open>Properties of the collection manager\<close>

lemma ensure_body_present:
  assumes "get_collections self (store w) = Inr names" and "collection_name self \<in> set names"
  shows "ensure_body self n w = (Inr (), w\<lparr>trace := trace w @ [CGetCollections]\<rparr>)"
  using assms by (simp add: ensure_body_def call_get_collections_def log_call_def)

lemma ensure_body_created:
  assumes "get_collections self (store w) = Inr names" and "collection_name self \<notin> set names"
    and "create_collection self (collection_name self) n Cosine (store w) = Inr q'"
  shows "ensure_body self n w =
           (Inr (), w\<lparr>store := q',
                      trace := trace w @ [CGetCollections, CCreateCollection (collection_name self) n Cosine]\<rparr>)"
  using assms
  by (simp add: ensure_body_def call_get_collections_def call_create_collection_def log_call_def)

lemma ensure_body_absent_trace:
  assumes "get_collections self (store w) = Inr names" and "collection_name self \<notin> set names"
  shows "trace (snd (ensure_body self n w)) =
           trace w @ [CGetCollections, CCreateCollection (collection_name self) n Cosine]"
  using assms
  by (simp add: ensure_body_def call_get_collections_def call_create_collection_def log_call_def
                Let_def split: sum.splits)

lemma ensure_snd:
  "snd (tes_ensure_collection_exists self n w) = snd (ensure_body self n w)"
  "snd (qes_ensure_collection_exists self n w) = snd (ensure_body self n w)"
  "snd (sep_ensure_collection_exists self w) = snd (ensure_body self 1024 w)"
  by (simp_all add: tes_ensure_collection_exists_def qes_ensure_collection_exists_def
                    sep_ensure_collection_exists_def split: prod.splits sum.splits)

lemma ensure_body_fails:
  assumes "check_fails self n (store w) e"
  shows "ensure_body self n w = (Inl e, w\<lparr>trace := trace w @ check_calls self n (store w)\<rparr>)"
  using assms
  by (auto simp: check_fails_def check_calls_def ensure_body_def call_get_collections_def
                 call_create_collection_def log_call_def split: sum.splits)


text \<open>
  C5. For every store on which listing succeeds, the three
  \<^verbatim>\<open>_ensure_collection_exists\<close> methods ask for the creation of the collection, with the
  given vector size (1024 in the strict pipeline) and cosine distance, exactly when no
  listed collection has the name: when it is listed they return success after the
  listing alone, whatever the parameters of the existing collection are, and the store
  is left as it was. Hence on a store that lacks the collection, creates it on request
  and lists it afterwards, two calls in sequence both succeed and create it once.
\<close>

theorem ensure_ready_idempotent:
  assumes listed: "get_collections self (store w) = Inr names"
  shows "(collection_name self \<in> set names \<longrightarrow>
            tes_ensure_collection_exists self n w = (Inr True, w\<lparr>trace := trace w @ [CGetCollections]\<rparr>)
          \<and> qes_ensure_collection_exists self n w = (Inr True, w\<lparr>trace := trace w @ [CGetCollections]\<rparr>)
          \<and> sep_ensure_collection_exists self w = (Inr (), w\<lparr>trace := trace w @ [CGetCollections]\<rparr>))
       \<and> (collection_name self \<notin> set names \<longrightarrow>
            trace (snd (tes_ensure_collection_exists self n w))
              = trace w @ [CGetCollections, CCreateCollection (collection_name self) n Cosine]
          \<and> trace (snd (qes_ensure_collection_exists self n w))
              = trace w @ [CGetCollections, CCreateCollection (collection_name self) n Cosine]
          \<and> trace (snd (sep_ensure_collection_exists self w))
              = trace w @ [CGetCollections, CCreateCollection (collection_name self) 1024 Cosine])
       \<and> (collection_name self \<notin> set names
            \<and> create_collection self (collection_name self) n Cosine (store w) = Inr q'
            \<and> get_collections self q' = Inr names' \<and> collection_name self \<in> set names' \<longrightarrow>
            twice (tes_ensure_collection_exists self n) w
              = (Inr True, Inr True,
                 w\<lparr>store := q',
                   trace := trace w @ [CGetCollections,
                                       CCreateCollection (collection_name self) n Cosine,
                                       CGetCollections]\<rparr>)
          \<and> twice (qes_ensure_collection_exists self n) w
              = (Inr True, Inr True,
                 w\<lparr>store := q',
                   trace := trace w @ [CGetCollections,
                                       CCreateCollection (collection_name self) n Cosine,
                                       CGetCollections]\<rparr>)
          \<and> (n = 1024 \<longrightarrow>
              twice (sep_ensure_collection_exists self) w
                = (Inr (), Inr (),
                   w\<lparr>store := q',
                     trace := trace w @ [CGetCollections,
                                         CCreateCollection (collection_name self) 1024 Cosine,
                                         CGetCollections]\<rparr>)))"
proof (intro conjI impI)
  assume present: "collection_name self \<in> set names"
  show "tes_ensure_collection_exists self n w = (Inr True, w\<lparr>trace := trace w @ [CGetCollections]\<rparr>)"
    by (simp add: tes_ensure_collection_exists_def ensure_body_present [OF listed present])
  show "qes_ensure_collection_exists self n w = (Inr True, w\<lparr>trace := trace w @ [CGetCollections]\<rparr>)"
    by (simp add: qes_ensure_collection_exists_def ensure_body_present [OF listed present])
  show "sep_ensure_collection_exists self w = (Inr (), w\<lparr>trace := trace w @ [CGetCollections]\<rparr>)"
    by (simp add: sep_ensure_collection_exists_def ensure_body_present [OF listed present])
next
  assume absent: "collection_name self \<notin> set names"
  show "trace (snd (tes_ensure_collection_exists self n w))
          = trace w @ [CGetCollections, CCreateCollection (collection_name self) n Cosine]"
    using ensure_body_absent_trace [OF listed absent, of n] by (simp add: ensure_snd)
  show "trace (snd (qes_ensure_collection_exists self n w))
          = trace w @ [CGetCollections, CCreateCollection (collection_name self) n Cosine]"
    using ensure_body_absent_trace [OF listed absent, of n] by (simp add: ensure_snd)
  show "trace (snd (sep_ensure_collection_exists self w))
          = trace w @ [CGetCollections, CCreateCollection (collection_name self) 1024 Cosine]"
    using ensure_body_absent_trace [OF listed absent, of 1024] by (simp add: ensure_snd)
next
  assume fresh: "collection_name self \<notin> set names
            \<and> create_collection self (collection_name self) n Cosine (store w) = Inr q'
            \<and> get_collections self q' = Inr names' \<and> collection_name self \<in> set names'"
  define w1 where "w1 = w\<lparr>store := q',
      trace := trace w @ [CGetCollections, CCreateCollection (collection_name self) n Cosine]\<rparr>"
  have first: "ensure_body self n w = (Inr (), w1)"
    using ensure_body_created [OF listed, of n q'] fresh by (simp add: w1_def)
  have "get_collections self (store w1) = Inr names'"
    using fresh by (simp add: w1_def)
  then have second: "ensure_body self n w1 = (Inr (), w1\<lparr>trace := trace w1 @ [CGetCollections]\<rparr>)"
    using fresh by (simp add: ensure_body_present)
  have final: "w1\<lparr>trace := trace w1 @ [CGetCollections]\<rparr> =
      w\<lparr>store := q',
        trace := trace w @ [CGetCollections, CCreateCollection (collection_name self) n Cosine,
                            CGetCollections]\<rparr>"
    by (simp add: w1_def)
  show "twice (tes_ensure_collection_exists self n) w
          = (Inr True, Inr True,
             w\<lparr>store := q',
               trace := trace w @ [CGetCollections,
                                   CCreateCollection (collection_name self) n Cosine,
                                   CGetCollections]\<rparr>)"
    by (simp add: twice_def tes_ensure_collection_exists_def first second final)
  show "twice (qes_ensure_collection_exists self n) w
          = (Inr True, Inr True,
             w\<lparr>store := q',
               trace := trace w @ [CGetCollections,
                                   CCreateCollection (collection_name self) n Cosine,
                                   CGetCollections]\<rparr>)"
    by (simp add: twice_def qes_ensure_collection_exists_def first second final)
  show "twice (sep_ensure_collection_exists self) w
          = (Inr (), Inr (),
             w\<lparr>store := q',
               trace := trace w @ [CGetCollections,
                                   CCreateCollection (collection_name self) 1024 Cosine,
                                   CGetCollections]\<rparr>)" if "n = 1024"
    using first second final that
    by (simp add: twice_def sep_ensure_collection_exists_def)
qed

theorem ensure_ready_idempotent_witness:
  "get_collections mem_service (store world0) = Inr []
   \<and> collection_name mem_service \<notin> set []
   \<and> twice (tes_ensure_collection_exists mem_service 1024) world0
       = (Inr True, Inr True,
          world0\<lparr>store := [(''text_embeddings'', \<lparr>c_size = 1024, c_distance = Cosine, c_points = []\<rparr>)],
                 trace := [CGetCollections, CCreateCollection ''text_embeddings'' 1024 Cosine,
                           CGetCollections]\<rparr>)
   \<and> twice (sep_ensure_collection_exists mem_service) world0
       = (Inr (), Inr (),
          world0\<lparr>store := [(''text_embeddings'', \<lparr>c_size = 1024, c_distance = Cosine, c_points = []\<rparr>)],
                 trace := [CGetCollections, CCreateCollection ''text_embeddings'' 1024 Cosine,
                           CGetCollections]\<rparr>)
   \<and> tes_ensure_collection_exists mem_service 1024
        (world0\<lparr>store := [(''text_embeddings'', \<lparr>c_size = 3, c_distance = Dot, c_points = []\<rparr>)]\<rparr>)
       = (Inr True,
          world0\<lparr>store := [(''text_embeddings'', \<lparr>c_size = 3, c_distance = Dot, c_points = []\<rparr>)],
                 trace := [CGetCollections]\<rparr>)"
proof -
  let ?q = "[(''text_embeddings'', \<lparr>c_size = 1024, c_distance = Cosine, c_points = []\<rparr>)]"
  let ?old = "world0\<lparr>store := [(''text_embeddings'', \<lparr>c_size = 3, c_distance = Dot, c_points = []\<rparr>)]\<rparr>"
  have h1: "get_collections mem_service (store world0) = Inr []"
    by (simp add: mem_service_def mem_get_collections_def world0_def)
  have h2: "get_collections mem_service (store ?old) = Inr [''text_embeddings'']"
    by (simp add: mem_service_def mem_get_collections_def world0_def)
  have fresh: "collection_name mem_service \<notin> set []
      \<and> create_collection mem_service (collection_name mem_service) 1024 Cosine (store world0) = Inr ?q
      \<and> get_collections mem_service ?q = Inr [''text_embeddings'']
      \<and> collection_name mem_service \<in> set [''text_embeddings'']"
    by (simp add: mem_service_def mem_get_collections_def mem_create_collection_def world0_def)
  show ?thesis
    using ensure_ready_idempotent [OF h1, of 1024 ?q "[''text_embeddings'']"]
          ensure_ready_idempotent [OF h2, of 1024] h1 fresh
    by (simp add: world0_def mem_service_def)
qed

lemma check_calls_no_access: "\<not> list_ex reads_or_writes (check_calls self n q)"
  by (simp add: check_calls_def split: sum.splits)

lemma self_name: "collection_name self = name \<Longrightarrow> self\<lparr>collection_name := name\<rparr> = self"
  by auto

section \<open>Properties of the batched save\<close>


lemma length_uuids [simp]: "length (uuids self w n) = n"
  by (simp add: uuids_def)

lemma uuids_frame [simp]:
  "uuids self (w\<lparr>trace := t\<rparr>) n = uuids self w n"
  "uuids self (w\<lparr>store := q\<rparr>) n = uuids self w n"
  "uuids self (w\<lparr>heap := h\<rparr>) n = uuids self w n"
  "uuids self (w\<lparr>clock := c\<rparr>) n = uuids self w n"
  "uuids self (w\<lparr>next_addr := a\<rparr>) n = uuids self w n"
  by (simp_all add: uuids_def)

text \<open>The part of \<^verbatim>\<open>save_embeddings_to_qdrant\<close> before the metadata is looked at, when the
  embedding call returns.\<close>

lemma tes_save_embedded:
  assumes "texts \<noteq> []" and "embed self texts SearchDocument = Inr embs"
  shows "tes_save_embeddings_to_qdrant self texts metadata_list ids w =
     (case ensure_body self 1024 (w\<lparr>trace := trace w @ [CEmbed texts SearchDocument]\<rparr>) of
        (Inl e, w2) \<Rightarrow> (Inl (GenericException ''Failed to ensure Qdrant collection exists''), w2)
      | (Inr u, w2) \<Rightarrow>
          (case tes_prepare_ids self texts ids w2 of
             (Inl e, w3) \<Rightarrow> (Inl e, w3)
           | (Inr ids', w3) \<Rightarrow>
               (case tes_prepare_metadata texts metadata_list w3 of
                  (Inl e, w4) \<Rightarrow> (Inl e, w4)
                | (Inr ml', w4) \<Rightarrow> save_points self texts ids' embs ml' w4)))"
  using assms
  by (simp add: tes_save_embeddings_to_qdrant_def tes_convert_text_to_embeddings_def
                call_embed_def log_call_def tes_ensure_collection_exists_def
           split: prod.splits sum.splits)

lemma tes_save_check_fails:
  assumes "texts \<noteq> []" and "embed self texts SearchDocument = Inr embs"
    and "check_fails self 1024 (store w) e"
  shows "tes_save_embeddings_to_qdrant self texts metadata_list ids w =
     (Inl (GenericException ''Failed to ensure Qdrant collection exists''),
      w\<lparr>trace := trace w @ CEmbed texts SearchDocument # check_calls self 1024 (store w)\<rparr>)"
proof -
  let ?w1 = "w\<lparr>trace := trace w @ [CEmbed texts SearchDocument]\<rparr>"
  have "check_fails self 1024 (store ?w1) e"
    using assms(3) by simp
  then have "ensure_body self 1024 ?w1 =
      (Inl e, ?w1\<lparr>trace := trace ?w1 @ check_calls self 1024 (store ?w1)\<rparr>)"
    by (rule ensure_body_fails)
  then show ?thesis
    by (simp add: tes_save_embedded [OF assms(1,2)])
qed







section \<open>Failure of the collection check\<close>

text \<open>
  C3, as amended. Let the existence check or the creation fail with \<open>e\<close>. The
  \<^verbatim>\<open>_ensure_collection_exists\<close> of \<^verbatim>\<open>QdrantEmbeddingService\<close> and of
  \<^verbatim>\<open>StrictEmbeddingPipeline\<close> raise \<open>e\<close> itself, and so do their constructors, so that no
  service object exists to read or write with. The one of \<^verbatim>\<open>TextEmbeddingService\<close> does
  not raise: it returns \<^verbatim>\<open>False\<close>, and \<^verbatim>\<open>save_embeddings_to_qdrant\<close> then raises a
  generic exception in place of \<open>e\<close>. In every case the calls made are those of the check
  (after the embedding call, in the save), none of which reads from or writes to the
  collection.
\<close>

theorem collection_check_failure:
  assumes failed: "check_fails self n (store w) e"
  shows "qes_ensure_collection_exists self n w
           = (Inl e, w\<lparr>trace := trace w @ check_calls self n (store w)\<rparr>)
       \<and> tes_ensure_collection_exists self n w
           = (Inr False, w\<lparr>trace := trace w @ check_calls self n (store w)\<rparr>)
       \<and> \<not> list_ex reads_or_writes (check_calls self n (store w))
       \<and> (n = 1024 \<longrightarrow>
            sep_ensure_collection_exists self w
              = (Inl e, w\<lparr>trace := trace w @ check_calls self 1024 (store w)\<rparr>)
          \<and> (collection_name self = ''text_embeddings'' \<longrightarrow>
                qes_init self w = (Inl e, w\<lparr>trace := trace w @ check_calls self 1024 (store w)\<rparr>)
              \<and> sep_init self w = (Inl e, w\<lparr>trace := trace w @ check_calls self 1024 (store w)\<rparr>))
          \<and> (texts \<noteq> [] \<and> embed self texts SearchDocument = Inr embs \<longrightarrow>
                tes_save_embeddings_to_qdrant self texts metadata_list ids w
                  = (Inl (GenericException ''Failed to ensure Qdrant collection exists''),
                     w\<lparr>trace := trace w @ CEmbed texts SearchDocument
                                         # check_calls self 1024 (store w)\<rparr>)))"
proof (intro conjI impI)
  note body = ensure_body_fails [OF failed]
  show "qes_ensure_collection_exists self n w
          = (Inl e, w\<lparr>trace := trace w @ check_calls self n (store w)\<rparr>)"
    by (simp add: qes_ensure_collection_exists_def body)
  show "tes_ensure_collection_exists self n w
          = (Inr False, w\<lparr>trace := trace w @ check_calls self n (store w)\<rparr>)"
    by (simp add: tes_ensure_collection_exists_def body)
  show "\<not> list_ex reads_or_writes (check_calls self n (store w))"
    by (rule check_calls_no_access)
next
  assume size: "n = 1024"
  show sep: "sep_ensure_collection_exists self w
      = (Inl e, w\<lparr>trace := trace w @ check_calls self 1024 (store w)\<rparr>)"
    using ensure_body_fails [OF failed] size by (simp add: sep_ensure_collection_exists_def)
  have qes: "qes_ensure_collection_exists self 1024 w
      = (Inl e, w\<lparr>trace := trace w @ check_calls self 1024 (store w)\<rparr>)"
    using ensure_body_fails [OF failed] size by (simp add: qes_ensure_collection_exists_def)
  show "qes_init self w = (Inl e, w\<lparr>trace := trace w @ check_calls self 1024 (store w)\<rparr>)"
    if "collection_name self = ''text_embeddings''"
    by (simp add: qes_init_def self_name [OF that] qes)
  show "sep_init self w = (Inl e, w\<lparr>trace := trace w @ check_calls self 1024 (store w)\<rparr>)"
    if "collection_name self = ''text_embeddings''"
    by (simp add: sep_init_def self_name [OF that] sep)
  show "tes_save_embeddings_to_qdrant self texts metadata_list ids w
      = (Inl (GenericException ''Failed to ensure Qdrant collection exists''),
         w\<lparr>trace := trace w @ CEmbed texts SearchDocument # check_calls self 1024 (store w)\<rparr>)"
    if "texts \<noteq> [] \<and> embed self texts SearchDocument = Inr embs"
    using that failed size by (simp add: tes_save_check_fails)
qed

theorem collection_check_failure_witness:
  "check_fails down_service 1024 (store world0) (ClientError ''connection refused'')
   \<and> qes_init down_service world0
       = (Inl (ClientError ''connection refused''), world0\<lparr>trace := [CGetCollections]\<rparr>)
   \<and> sep_init down_service world0
       = (Inl (ClientError ''connection refused''), world0\<lparr>trace := [CGetCollections]\<rparr>)
   \<and> tes_save_embeddings_to_qdrant down_service [''a cat''] None None world0
       = (Inl (GenericException ''Failed to ensure Qdrant collection exists''),
          world0\<lparr>trace := [CEmbed [''a cat''] SearchDocument, CGetCollections]\<rparr>)"
proof -
  have h: "check_fails down_service 1024 (store world0) (ClientError ''connection refused'')"
    by (simp add: check_fails_def down_service_def)
  have calls: "check_calls down_service 1024 (store world0) = [CGetCollections]"
    by (simp add: check_calls_def down_service_def)
  have facts: "collection_name down_service = ''text_embeddings''"
      "embed down_service [''a cat''] SearchDocument = Inr [replicate 1024 5]"
      "trace world0 = []"
    by (simp_all add: down_service_def mem_service_def mem_embed_def world0_def)
  show ?thesis
    using collection_check_failure [OF h, where texts = "[''a cat'']" and embs = "[replicate 1024 5]"
            and metadata_list = None and ids = None] h
    by (simp add: calls facts)
qed

text \<open>C3 as stated fails: when listing the collections raises, the check of
  \<^verbatim>\<open>TextEmbeddingService\<close> returns \<^verbatim>\<open>False\<close> to its caller and raises nothing.\<close>

theorem collection_check_failure_counterexample:
  "get_collections down_service (store world0) = Inl (ClientError ''connection refused'')
   \<and> fst (tes_ensure_collection_exists down_service 1024 world0) = Inr False"
  by (simp add: down_service_def tes_ensure_collection_exists_def ensure_body_def
                call_get_collections_def)

section \<open>Empty input\<close>

lemma all_dropWhile: "(\<forall>x\<in>set (dropWhile P xs). P x) \<longleftrightarrow> (\<forall>x\<in>set xs. P x)"
  by (induction xs) auto

lemma strip_Nil_iff: "strip s = [] \<longleftrightarrow> (\<forall>c\<in>set s. is_space c)"
  by (simp add: strip_def dropWhile_eq_Nil_conv all_dropWhile)

lemma blank_iff: "blank s \<longleftrightarrow> (\<forall>c\<in>set s. is_space c)"
proof -
  have "blank s \<longleftrightarrow> strip s = []"
    by (auto simp: blank_def strip_def)
  then show ?thesis
    by (simp add: strip_Nil_iff)
qed

text \<open>
  C4, as amended. A text that is empty or consists of whitespace only is refused with
  \<^verbatim>\<open>ValueError\<close>, before any external call, by the single save of the strict pipeline
  (for every metadata) and by the three retrieval functions (for every \<open>top_k\<close>). The
  batched saves are different: on an empty list of texts they return the empty list of
  ids and make no call, and only the route \<^verbatim>\<open>POST /save\<close> in front of them answers 400
  \<^verbatim>\<open>INVALID_INPUT\<close>; the elements of a batch are not looked at.
\<close>

theorem empty_input_rejected:
  assumes empty: "\<forall>c\<in>set text. is_space c"
  shows "sep_save_embedding self text metadata w = (Inl (ValueError ''Text cannot be empty''), w)
       \<and> tes_retrieve_similar_embeddings self text k filters w
           = (Inl (ValueError ''Query text cannot be empty''), w)
       \<and> qes_retrieve_embeddings self text k w
           = (Inl (ValueError ''Query text cannot be empty''), w)
       \<and> sep_retrieve_embedding self text k w = (Inl (ValueError ''Query cannot be empty''), w)
       \<and> tes_save_embeddings_to_qdrant self [] metadata_list ids w = (Inr [], w)
       \<and> qes_save_embeddings self [] metadata_list w = (Inr [], w)
       \<and> api_save_embeddings self [] metadata_list w
           = (Inl (HTTPException 400 ''INVALID_INPUT'' ''Texts list cannot be empty''), w)"
proof -
  have "blank text"
    using empty by (simp add: blank_iff)
  then show ?thesis
    by (simp add: sep_save_embedding_def tes_retrieve_similar_embeddings_def
                  qes_retrieve_embeddings_def sep_retrieve_embedding_def
                  tes_save_embeddings_to_qdrant_def qes_save_embeddings_def
                  api_save_embeddings_def)
qed

theorem empty_input_rejected_witness:
  "is_space CHR '' ''
   \<and> sep_save_embedding mem_service '' '' [''category'' \<mapsto> PyStr ''AI''] world0
       = (Inl (ValueError ''Text cannot be empty''), world0)
   \<and> qes_retrieve_embeddings mem_service '' '' 3 world0
       = (Inl (ValueError ''Query text cannot be empty''), world0)"
proof -
  have h: "\<forall>c\<in>set '' ''. is_space c"
    by (simp add: is_space_def)
  show ?thesis
    using empty_input_rejected [OF h, of mem_service "[''category'' \<mapsto> PyStr ''AI'']" world0 3] h
    by simp
qed

text \<open>C4 as stated fails: the batched save of no texts succeeds with an empty result, and
  a batch holding a whitespace-only text goes to the provider and is saved.\<close>

theorem empty_input_rejected_counterexample:
  "tes_save_embeddings_to_qdrant mem_service [] None None world0 = (Inr [], world0)
   \<and> is_space CHR '' ''
   \<and> fst (tes_save_embeddings_to_qdrant mem_service ['' ''] None None world0)
       = Inr [uuid4 mem_service 0]"
  by (simp add: tes_save_embeddings_to_qdrant_def tes_convert_text_to_embeddings_def
                tes_ensure_collection_exists_def ensure_body_def tes_prepare_ids_def
                tes_prepare_metadata_def save_points_def build_points_def
                call_embed_def call_get_collections_def call_create_collection_def
                call_upsert_def log_call_def new_uuid_def new_dict_def read_clock_def
                heap_setdefault_def serialize_def is_space_def
                mem_service_def mem_embed_def mem_get_collections_def
                mem_create_collection_def mem_upsert_def world0_def)
section \<open>Vector dimensionality\<close>

text \<open>
  C2, as amended. In the strict pipeline, when the first vector the provider returns
  has a length other than 1024, \<^verbatim>\<open>save_embedding\<close> and \<^verbatim>\<open>retrieve_embedding\<close> raise
  \<^verbatim>\<open>ValueError\<close> naming that length, and the embedding call is the only call made: nothing
  is upserted or searched, and no vector is cut or filled. The other two classes have no
  such check: \<^verbatim>\<open>convert_text_to_embeddings\<close> returns what the provider returned, and for
  every vector length the batched save and the retrieval of \<^verbatim>\<open>QdrantEmbeddingService\<close>
  hand the vector to the store as it is.
\<close>

theorem wrong_dimension:
  assumes nonblank: "strip text \<noteq> []"
  shows "(embed self [text] SearchDocument = Inr (v # vs) \<and> length v \<noteq> 1024 \<longrightarrow>
            sep_save_embedding self text metadata w
              = (Inl (ValueError (''Expected embedding vector of size 1024, got ''
                         @ str_nat (length v))),
                 w\<lparr>trace := trace w @ [CEmbed [text] SearchDocument]\<rparr>))
       \<and> (embed self [text] SearchQuery = Inr (v # vs) \<and> length v \<noteq> 1024 \<longrightarrow>
            sep_retrieve_embedding self text k w
              = (Inl (ValueError (''Expected query embedding vector of size 1024, got ''
                         @ str_nat (length v))),
                 w\<lparr>trace := trace w @ [CEmbed [text] SearchQuery]\<rparr>))
       \<and> fst (tes_convert_text_to_embeddings self [text] w) = embed self [text] SearchDocument
       \<and> (embed self [text] SearchQuery = Inr (v # vs) \<longrightarrow>
            new_calls w (snd (qes_retrieve_embeddings self text k w))
              = [CEmbed [text] SearchQuery, CSearch (collection_name self) v k])
       \<and> (embed self [text] SearchDocument = Inr [v] \<longrightarrow>
            new_calls w (snd (qes_save_embeddings self [text] None w))
              = [CEmbed [text] SearchDocument,
                 CUpsert (collection_name self)
                   [\<lparr>ps_id = uuid4 self (uuid_ctr w), ps_vector = v, ps_payload = next_addr w\<rparr>]])"
proof -
  have nb: "\<not> blank text"
    using nonblank by (auto simp: blank_def strip_def)
  have save: "sep_save_embedding self text metadata w
              = (Inl (ValueError (''Expected embedding vector of size 1024, got ''
                         @ str_nat (length v))),
                 w\<lparr>trace := trace w @ [CEmbed [text] SearchDocument]\<rparr>)"
    if "embed self [text] SearchDocument = Inr (v # vs) \<and> length v \<noteq> 1024"
    using that nb
    by (simp add: sep_save_embedding_def call_embed_def log_call_def first_embedding_def)
  have retrieve: "sep_retrieve_embedding self text k w
              = (Inl (ValueError (''Expected query embedding vector of size 1024, got ''
                         @ str_nat (length v))),
                 w\<lparr>trace := trace w @ [CEmbed [text] SearchQuery]\<rparr>)"
    if "embed self [text] SearchQuery = Inr (v # vs) \<and> length v \<noteq> 1024"
    using that nb
    by (simp add: sep_retrieve_embedding_def call_embed_def log_call_def first_embedding_def)
  have convert: "fst (tes_convert_text_to_embeddings self [text] w)
      = embed self [text] SearchDocument"
    by (simp add: tes_convert_text_to_embeddings_def call_embed_def)
  have search: "new_calls w (snd (qes_retrieve_embeddings self text k w))
              = [CEmbed [text] SearchQuery, CSearch (collection_name self) v k]"
    if "embed self [text] SearchQuery = Inr (v # vs)"
    using that nb
    by (simp add: qes_retrieve_embeddings_def call_embed_def call_search_def log_call_def
                  first_embedding_def new_calls_def split: sum.splits)
  have upsert: "new_calls w (snd (qes_save_embeddings self [text] None w))
              = [CEmbed [text] SearchDocument,
                 CUpsert (collection_name self)
                   [\<lparr>ps_id = uuid4 self (uuid_ctr w), ps_vector = v, ps_payload = next_addr w\<rparr>]]"
    if "embed self [text] SearchDocument = Inr [v]"
    using that
    by (simp add: qes_save_embeddings_def qes_prepare_metadata_def save_points_def
                  build_points_def call_embed_def call_upsert_def log_call_def new_uuid_def
                  new_dict_def read_clock_def heap_setdefault_def new_calls_def Let_def
             split: sum.splits)
  show ?thesis
    using save retrieve convert search upsert by blast
qed

theorem wrong_dimension_witness:
  "strip ''a cat'' \<noteq> []
   \<and> embed short_service [''a cat''] SearchDocument = Inr [[1, 2, 3]]
   \<and> sep_save_embedding short_service ''a cat'' Map.empty world0
       = (Inl (ValueError ''Expected embedding vector of size 1024, got 3''),
          world0\<lparr>trace := [CEmbed [''a cat''] SearchDocument]\<rparr>)
   \<and> sep_retrieve_embedding short_service ''a cat'' 3 world0
       = (Inl (ValueError ''Expected query embedding vector of size 1024, got 3''),
          world0\<lparr>trace := [CEmbed [''a cat''] SearchQuery]\<rparr>)"
proof -
  have h: "strip ''a cat'' \<noteq> []"
    by (simp add: strip_def is_space_def)
  have facts: "embed short_service [''a cat''] SearchDocument = Inr [[1, 2, 3]]"
      "embed short_service [''a cat''] SearchQuery = Inr [[1, 2, 3]]"
      "trace world0 = []"
    by (simp_all add: short_service_def world0_def)
  have digit: "str_nat (Suc (Suc (Suc 0))) = ''3''"
    by code_simp
  show ?thesis
    using wrong_dimension [OF h, where self = short_service and w = world0 and v = "[1, 2, 3]"
            and vs = "[]" and metadata = Map.empty and k = 3] h
    by (simp add: facts digit)
qed

text \<open>C2 as stated fails: with a provider that returns vectors of three components the
  batched save of \<^verbatim>\<open>TextEmbeddingService\<close> raises no \<^verbatim>\<open>ValueError\<close> of its own; it creates the
  collection and sends the short vector to the store, whose refusal is what the caller
  sees.\<close>

theorem wrong_dimension_counterexample:
  "embed short_service [''a cat''] SearchDocument = Inr [[1, 2, 3]]
   \<and> fst (tes_save_embeddings_to_qdrant short_service [''a cat''] None None world0)
       = Inl (ClientError ''Vector dimension error'')
   \<and> new_calls world0 (snd (tes_save_embeddings_to_qdrant short_service [''a cat''] None None world0))
       = [CEmbed [''a cat''] SearchDocument, CGetCollections,
          CCreateCollection ''text_embeddings'' 1024 Cosine,
          CUpsert ''text_embeddings''
            [\<lparr>ps_id = uuid4 short_service 0, ps_vector = [1, 2, 3], ps_payload = 0\<rparr>]]"
  by (simp add: tes_save_embeddings_to_qdrant_def tes_convert_text_to_embeddings_def
                tes_ensure_collection_exists_def ensure_body_def tes_prepare_ids_def
                tes_prepare_metadata_def save_points_def build_points_def
                call_embed_def call_get_collections_def call_create_collection_def
                call_upsert_def log_call_def new_uuid_def new_dict_def read_clock_def
                heap_setdefault_def serialize_def new_calls_def Let_def
                short_service_def mem_service_def mem_get_collections_def
                mem_create_collection_def mem_upsert_def world0_def)
section \<open>Retrieval and the bounds on \<^verbatim>\<open>top_k\<close>\<close>

lemma not_blank: "strip s \<noteq> [] \<Longrightarrow> \<not> blank s"
  by (auto simp: blank_def strip_def)

lemma tes_retrieve_calls:
  assumes "strip q \<noteq> []" and "embed self [q] SearchQuery = Inr (v # vs)"
  shows "tes_retrieve_similar_embeddings self q k filters w =
     (case query_points self (collection_name self) v k filters (store w) of
        Inl e \<Rightarrow> Inl e
      | Inr hits \<Rightarrow> Inr (map result_of_point hits),
      w\<lparr>trace := trace w @ [CEmbed [q] SearchQuery,
                             CQueryPoints (collection_name self) v k filters]\<rparr>)"
  using assms not_blank [OF assms(1)]
  by (simp add: tes_retrieve_similar_embeddings_def tes_convert_single_text_to_embedding_def
                call_embed_def call_query_points_def log_call_def first_embedding_def
           split: sum.splits)

lemma qes_retrieve_calls:
  assumes "strip q \<noteq> []" and "embed self [q] SearchQuery = Inr (v # vs)"
  shows "qes_retrieve_embeddings self q k w =
     (case search self (collection_name self) v k (store w) of
        Inl e \<Rightarrow> Inl e
      | Inr hits \<Rightarrow> Inr (map result_of_point hits),
      w\<lparr>trace := trace w @ [CEmbed [q] SearchQuery, CSearch (collection_name self) v k]\<rparr>)"
  using assms not_blank [OF assms(1)]
  by (simp add: qes_retrieve_embeddings_def call_embed_def call_search_def log_call_def
                first_embedding_def split: sum.splits)

lemma sep_retrieve_calls:
  assumes "strip q \<noteq> []" and "embed self [q] SearchQuery = Inr (v # vs)"
    and "length v = 1024"
  shows "sep_retrieve_embedding self q k w =
     (case search self (collection_name self) v k (store w) of
        Inl e \<Rightarrow> Inl e
      | Inr hits \<Rightarrow> Inr (map result_of_point hits),
      w\<lparr>trace := trace w @ [CEmbed [q] SearchQuery, CSearch (collection_name self) v k]\<rparr>)"
  using assms not_blank [OF assms(1)]
  by (simp add: sep_retrieve_embedding_def call_embed_def call_search_def log_call_def
                first_embedding_def split: sum.splits)



text \<open>
  C8, as amended. The bounds on \<open>top_k\<close> are checked by the route \<^verbatim>\<open>POST /search\<close> only:
  for every \<open>top_k\<close> below 1 or above 100 it answers 400 (\<^verbatim>\<open>INVALID_TOP_K\<close>, or
  \<^verbatim>\<open>INVALID_INPUT\<close> when the query is empty as well) and makes no call, and a request
  without \<open>top_k\<close> is served like one with 5. The retrieval functions of the three
  classes take every integer: they embed the query and pass \<open>top_k\<close> to the store as the
  limit.
\<close>

theorem top_k_validation:
  "(k < 1 \<or> 100 < k \<longrightarrow>
      api_search_similar self q (Some k) w
        = (Inl (if strip q = []
                then HTTPException 400 ''INVALID_INPUT'' ''Query text cannot be empty''
                else HTTPException 400 ''INVALID_TOP_K'' ''top_k must be between 1 and 100''), w))
   \<and> api_search_similar self q None w = api_search_similar self q (Some 5) w
   \<and> (strip q \<noteq> [] \<and> embed self [q] SearchQuery = Inr (v # vs) \<longrightarrow>
        new_calls w (snd (tes_retrieve_similar_embeddings self q k filters w))
          = [CEmbed [q] SearchQuery, CQueryPoints (collection_name self) v k filters]
      \<and> new_calls w (snd (qes_retrieve_embeddings self q k w))
          = [CEmbed [q] SearchQuery, CSearch (collection_name self) v k]
      \<and> (length v = 1024 \<longrightarrow>
          new_calls w (snd (sep_retrieve_embedding self q k w))
            = [CEmbed [q] SearchQuery, CSearch (collection_name self) v k]))"
proof -
  have blank: "blank q \<longleftrightarrow> strip q = []"
    by (auto simp: blank_def strip_def)
  have bounds: "api_search_similar self q (Some k) w
        = (Inl (if strip q = []
                then HTTPException 400 ''INVALID_INPUT'' ''Query text cannot be empty''
                else HTTPException 400 ''INVALID_TOP_K'' ''top_k must be between 1 and 100''), w)"
    if "k < 1 \<or> 100 < k"
    using that by (auto simp: api_search_similar_def blank)
  have default: "api_search_similar self q None w = api_search_similar self q (Some 5) w"
    by (simp add: api_search_similar_def top_k_or_5_def)
  have calls: "new_calls w (snd (tes_retrieve_similar_embeddings self q k filters w))
          = [CEmbed [q] SearchQuery, CQueryPoints (collection_name self) v k filters]"
      "new_calls w (snd (qes_retrieve_embeddings self q k w))
          = [CEmbed [q] SearchQuery, CSearch (collection_name self) v k]"
      "length v = 1024 \<longrightarrow>
          new_calls w (snd (sep_retrieve_embedding self q k w))
            = [CEmbed [q] SearchQuery, CSearch (collection_name self) v k]"
    if "strip q \<noteq> [] \<and> embed self [q] SearchQuery = Inr (v # vs)"
    using that
    by (simp_all add: tes_retrieve_calls qes_retrieve_calls sep_retrieve_calls new_calls_def)
  show ?thesis
    using bounds default calls by blast
qed

theorem top_k_validation_witness:
  "api_search_similar mem_service ''a cat'' (Some 0) world0
     = (Inl (HTTPException 400 ''INVALID_TOP_K'' ''top_k must be between 1 and 100''), world0)
   \<and> api_search_similar mem_service ''a cat'' (Some 101) world0
     = (Inl (HTTPException 400 ''INVALID_TOP_K'' ''top_k must be between 1 and 100''), world0)
   \<and> new_calls world0 (snd (qes_retrieve_embeddings mem_service ''a cat'' 101 world0))
     = [CEmbed [''a cat''] SearchQuery, CSearch ''text_embeddings'' (replicate 1024 5) 101]"
proof -
  have h: "strip ''a cat'' \<noteq> []"
    by (simp add: strip_def is_space_def)
  have e: "embed mem_service [''a cat''] SearchQuery = Inr (replicate 1024 5 # [])"
      "collection_name mem_service = ''text_embeddings''"
    by (simp_all add: mem_service_def mem_embed_def)
  show ?thesis
    using top_k_validation [where self = mem_service and q = "''a cat''" and k = 0 and w = world0]
          top_k_validation [where self = mem_service and q = "''a cat''" and k = 101 and w = world0
            and v = "replicate 1024 5" and vs = "[]"]
          h e
    by simp
qed

text \<open>C8 as stated fails: called with \<open>top_k\<close> 1000 on a collection that exists, the
  retrieval of \<^verbatim>\<open>TextEmbeddingService\<close> embeds the query, searches with limit 1000 and
  returns normally.\<close>

theorem top_k_validation_counterexample:
  "tes_retrieve_similar_embeddings mem_service ''a cat'' 1000 None (world0\<lparr>store := ready_store\<rparr>)
     = (Inr [],
        world0\<lparr>store := ready_store,
               trace := [CEmbed [''a cat''] SearchQuery,
                         CQueryPoints ''text_embeddings'' (replicate 1024 5) 1000 None]\<rparr>)"
  by (simp add: tes_retrieve_similar_embeddings_def tes_convert_single_text_to_embedding_def
                blank_def strip_def is_space_def call_embed_def call_query_points_def
                log_call_def first_embedding_def mem_service_def mem_embed_def mem_search_def
                ready_store_def world0_def)

section \<open>Health check\<close>

text \<open>
  C9. \<^verbatim>\<open>health_check\<close> returns a report for every behaviour of the store and never
  raises. When listing the collections or counting the points raises, the report is
  unhealthy with the text of the exception; when the collection is not listed it is
  unhealthy with a message naming the collection; otherwise it is healthy with the
  count.
\<close>

theorem health_check_never_raises:
  "\<not> isl (fst (health_check self w))
   \<and> (get_collections self (store w) = Inl e \<longrightarrow>
        fst (health_check self w)
          = Inr [''status'' \<mapsto> PyStr ''unhealthy'',
                 ''connection'' \<mapsto> PyStr ''failed'',
                 ''error'' \<mapsto> PyStr (str_exn e)])
   \<and> (get_collections self (store w) = Inr names \<and> collection_name self \<notin> set names \<longrightarrow>
        fst (health_check self w)
          = Inr [''status'' \<mapsto> PyStr ''unhealthy'',
                 ''connection'' \<mapsto> PyStr ''ok'',
                 ''collection'' \<mapsto> PyStr ''missing'',
                 ''message'' \<mapsto> PyStr (''Collection '' @ collection_name self @ '' does not exist'')])
   \<and> (get_collections self (store w) = Inr names \<and> collection_name self \<in> set names
        \<and> count self (collection_name self) (store w) = Inl e \<longrightarrow>
        fst (health_check self w)
          = Inr [''status'' \<mapsto> PyStr ''unhealthy'',
                 ''connection'' \<mapsto> PyStr ''failed'',
                 ''error'' \<mapsto> PyStr (str_exn e)])
   \<and> (get_collections self (store w) = Inr names \<and> collection_name self \<in> set names
        \<and> count self (collection_name self) (store w) = Inr n \<longrightarrow>
        fst (health_check self w)
          = Inr [''status'' \<mapsto> PyStr ''healthy'',
                 ''connection'' \<mapsto> PyStr ''ok'',
                 ''collection'' \<mapsto> PyStr ''available'',
                 ''vector_count'' \<mapsto> PyInt (int n)])"
proof -
  have returns: "\<not> isl (fst (health_check self w))"
    by (simp add: health_check_def split: prod.splits sum.splits)
  have down: "fst (health_check self w)
          = Inr [''status'' \<mapsto> PyStr ''unhealthy'',
                 ''connection'' \<mapsto> PyStr ''failed'',
                 ''error'' \<mapsto> PyStr (str_exn e)]"
    if "get_collections self (store w) = Inl e"
    using that by (simp add: health_check_def health_check_try_def call_get_collections_def)
  have missing: "fst (health_check self w)
          = Inr [''status'' \<mapsto> PyStr ''unhealthy'',
                 ''connection'' \<mapsto> PyStr ''ok'',
                 ''collection'' \<mapsto> PyStr ''missing'',
                 ''message'' \<mapsto> PyStr (''Collection '' @ collection_name self @ '' does not exist'')]"
    if "get_collections self (store w) = Inr names \<and> collection_name self \<notin> set names"
    using that by (simp add: health_check_def health_check_try_def call_get_collections_def)
  have uncounted: "fst (health_check self w)
          = Inr [''status'' \<mapsto> PyStr ''unhealthy'',
                 ''connection'' \<mapsto> PyStr ''failed'',
                 ''error'' \<mapsto> PyStr (str_exn e)]"
    if "get_collections self (store w) = Inr names \<and> collection_name self \<in> set names
        \<and> count self (collection_name self) (store w) = Inl e"
    using that
    by (simp add: health_check_def health_check_try_def call_get_collections_def
                  call_count_def log_call_def)
  have counted: "fst (health_check self w)
          = Inr [''status'' \<mapsto> PyStr ''healthy'',
                 ''connection'' \<mapsto> PyStr ''ok'',
                 ''collection'' \<mapsto> PyStr ''available'',
                 ''vector_count'' \<mapsto> PyInt (int n)]"
    if "get_collections self (store w) = Inr names \<and> collection_name self \<in> set names
        \<and> count self (collection_name self) (store w) = Inr n"
    using that
    by (simp add: health_check_def health_check_try_def call_get_collections_def
                  call_count_def log_call_def)
  show ?thesis
    using returns down missing uncounted counted by blast
qed

theorem health_check_never_raises_witness:
  "get_collections down_service (store world0) = Inl (ClientError ''connection refused'')
   \<and> fst (health_check down_service world0)
       = Inr [''status'' \<mapsto> PyStr ''unhealthy'',
              ''connection'' \<mapsto> PyStr ''failed'',
              ''error'' \<mapsto> PyStr ''connection refused'']
   \<and> get_collections mem_service (store world0) = Inr []
   \<and> fst (health_check mem_service world0)
       = Inr [''status'' \<mapsto> PyStr ''unhealthy'',
              ''connection'' \<mapsto> PyStr ''ok'',
              ''collection'' \<mapsto> PyStr ''missing'',
              ''message'' \<mapsto> PyStr ''Collection text_embeddings does not exist'']
   \<and> count mem_service ''text_embeddings'' foo_store = Inr 1
   \<and> fst (health_check mem_service (world0\<lparr>store := foo_store\<rparr>))
       = Inr [''status'' \<mapsto> PyStr ''healthy'',
              ''connection'' \<mapsto> PyStr ''ok'',
              ''collection'' \<mapsto> PyStr ''available'',
              ''vector_count'' \<mapsto> PyInt 1]"
proof -
  have h1: "get_collections down_service (store world0) = Inl (ClientError ''connection refused'')"
    by (simp add: down_service_def)
  have h2: "get_collections mem_service (store world0) = Inr []"
      "collection_name mem_service = ''text_embeddings''"
    by (simp_all add: mem_service_def mem_get_collections_def world0_def)
  have h3: "get_collections mem_service foo_store = Inr [''text_embeddings'']"
      "count mem_service ''text_embeddings'' foo_store = Inr 1"
    by (simp_all add: mem_service_def mem_get_collections_def mem_count_def foo_store_def)
  show ?thesis
    using health_check_never_raises [where self = down_service and w = world0
            and e = "ClientError ''connection refused''"]
          health_check_never_raises [where self = mem_service and w = world0 and names = "[]"]
          health_check_never_raises [where self = mem_service and w = "world0\<lparr>store := foo_store\<rparr>"
            and names = "[''text_embeddings'']" and n = 1]
          h1 h2 h3
    by simp
qed

section \<open>The metadata loop and the payloads\<close>





lemma first_index_less: "a \<in> set xs \<Longrightarrow> first_index xs a < length xs"
  by (induction xs) auto








lemma batch_points_frame [simp]:
  "batch_points self texts embs ml (w\<lparr>trace := t\<rparr>) = batch_points self texts embs ml w"
  "batch_points self texts embs ml (w\<lparr>store := q\<rparr>) = batch_points self texts embs ml w"
  by (simp_all add: batch_points_def)






section \<open>Mutation of the caller's dictionaries\<close>








end
